theory Spec2Isabelle
  imports Complex_Main
begin

section \<open>numpy float64 values\<close>

text \<open>
  Both notebooks compute with numpy \<open>float64\<close> scalars.  A value is modelled as an exact
  real number or one of the IEEE-754 special values: negative zero, the two infinities and
  not-a-number.  \<open>Fin 0\<close> is \<open>+0.0\<close>, \<open>NegZero\<close> is \<open>-0.0\<close>.

  What is modelled: the special values and the IEEE rules that produce them (division by
  zero, \<open>0 * inf\<close>, \<open>inf / inf\<close>, comparison with nan).  numpy does not raise on these: it
  prints a RuntimeWarning and carries on with the special value.

  What is not modelled: rounding, overflow and underflow of finite results.  A finite
  result is the exact real number.
\<close>

datatype npfloat = Fin real | NegZero | PInf | NInf | NaN

fun np_signbit :: "npfloat \<Rightarrow> bool" where
  "np_signbit (Fin r) = (r < 0)"
| "np_signbit NegZero = True"
| "np_signbit PInf = False"
| "np_signbit NInf = True"
| "np_signbit NaN = False"

fun np_is_zero :: "npfloat \<Rightarrow> bool" where
  "np_is_zero (Fin r) = (r = 0)"
| "np_is_zero NegZero = True"
| "np_is_zero PInf = False"
| "np_is_zero NInf = False"
| "np_is_zero NaN = False"

fun np_is_inf :: "npfloat \<Rightarrow> bool" where
  "np_is_inf (Fin r) = False"
| "np_is_inf NegZero = False"
| "np_is_inf PInf = True"
| "np_is_inf NInf = True"
| "np_is_inf NaN = False"

text \<open>The real value of a finite float (both zeros are 0).\<close>

fun np_val :: "npfloat \<Rightarrow> real" where
  "np_val (Fin r) = r"
| "np_val NegZero = 0"
| "np_val PInf = 0"
| "np_val NInf = 0"
| "np_val NaN = 0"

definition np_zero :: "bool \<Rightarrow> npfloat" where
  "np_zero s = (if s then NegZero else Fin 0)"

definition np_inf :: "bool \<Rightarrow> npfloat" where
  "np_inf s = (if s then NInf else PInf)"

text \<open>\<open>x * y\<close>: nan propagates, \<open>0 * inf\<close> is nan, the sign is the xor of the signs.\<close>

definition np_mul :: "npfloat \<Rightarrow> npfloat \<Rightarrow> npfloat" where
  "np_mul x y =
     (if x = NaN \<or> y = NaN then NaN
      else if (np_is_zero x \<and> np_is_inf y) \<or> (np_is_inf x \<and> np_is_zero y) then NaN
      else let s = (np_signbit x \<noteq> np_signbit y) in
        if np_is_inf x \<or> np_is_inf y then np_inf s
        else if np_is_zero x \<or> np_is_zero y then np_zero s
        else Fin (np_val x * np_val y))"

text \<open>
  \<open>x / y\<close>: nan propagates, \<open>0 / 0\<close> and \<open>inf / inf\<close> are nan, a non-zero value divided
  by zero is an infinity, with the xor of the signs.
\<close>

definition np_div :: "npfloat \<Rightarrow> npfloat \<Rightarrow> npfloat" where
  "np_div x y =
     (if x = NaN \<or> y = NaN then NaN
      else if (np_is_zero x \<and> np_is_zero y) \<or> (np_is_inf x \<and> np_is_inf y) then NaN
      else let s = (np_signbit x \<noteq> np_signbit y) in
        if np_is_inf x then np_inf s
        else if np_is_inf y then np_zero s
        else if np_is_zero y then np_inf s
        else if np_is_zero x then np_zero s
        else Fin (np_val x / np_val y))"

text \<open>\<open>numpy.exp\<close>.\<close>

fun np_exp :: "npfloat \<Rightarrow> npfloat" where
  "np_exp (Fin r) = Fin (exp r)"
| "np_exp NegZero = Fin 1"
| "np_exp PInf = PInf"
| "np_exp NInf = Fin 0"
| "np_exp NaN = NaN"

text \<open>\<open>x > y\<close>: false as soon as one side is nan; the two zeros are equal.\<close>

definition np_gt :: "npfloat \<Rightarrow> npfloat \<Rightarrow> bool" where
  "np_gt x y =
     (if x = NaN \<or> y = NaN then False
      else if x = PInf then y \<noteq> PInf
      else if y = NInf then x \<noteq> NInf
      else if y = PInf \<or> x = NInf then False
      else np_val x > np_val y)"

text \<open>\<open>x >= y\<close>, used to state properties only (the notebooks never evaluate it).\<close>

definition np_ge :: "npfloat \<Rightarrow> npfloat \<Rightarrow> bool" where
  "np_ge x y =
     (if x = NaN \<or> y = NaN then False
      else if x = PInf \<or> y = NInf then True
      else if y = PInf \<or> x = NInf then False
      else np_val x \<ge> np_val y)"

text \<open>A numpy bool used as a factor: \<open>True\<close> is 1.0, \<open>False\<close> is 0.0.\<close>

definition np_of_bool :: "bool \<Rightarrow> npfloat" where
  "np_of_bool b = Fin (if b then 1 else 0)"

text \<open>
  \<open>numpy.power(x, y)\<close> for a finite base \<open>x\<close> (zero meaning \<open>+0.0\<close>) and a finite
  exponent \<open>y\<close>, as C's \<open>pow\<close>: anything to the power 0 is 1; \<open>+0.0\<close> to a negative power
  is \<open>inf\<close> (a division by zero); a negative base has a power only for an integral
  exponent and gives nan otherwise.
\<close>

definition np_power :: "real \<Rightarrow> real \<Rightarrow> npfloat" where
  "np_power x y =
     (if y = 0 then Fin 1
      else if x = 0 then (if y < 0 then PInf else Fin 0)
      else if 0 < x then Fin (x powr y)
      else if of_int \<lfloor>y\<rfloor> = y then Fin (x powi \<lfloor>y\<rfloor>)
      else NaN)"

section \<open>The posterior of the unknown-variance notebook\<close>

text \<open>
  A chain state is a row of the \<open>(n_mc, 2)\<close> array \<open>markov_chain\<close>: two finite floats.
  \<open>curr_param[0]\<close> is \<open>fst\<close>, \<open>curr_param[1]\<close> is \<open>snd\<close>.
\<close>

type_synonym vec = "real \<times> real"

text \<open>
  \<^verbatim>\<open>
  def posterior_space(mean,sigma,N,curr_param):
      cps = curr_param[1]
      p1 = numpy.power(cps,-(float(N)+2)/2)
      p2 = (N-1) * numpy.square(sigma)
      p3 = N*numpy.square(mean - curr_param[0])
      p4 = -1/(2 * cps)
      p5 = numpy.exp(p4*(p2+p3))
      return  (curr_param[1] > 0) * p1 * p5
  \<close>
  \<open>mean\<close>, \<open>sigma\<close> and the entries of \<open>curr_param\<close> are finite numbers, \<open>N\<close> is a
  Python int.  \<open>p2\<close> and \<open>p3\<close> are finite; \<open>p1\<close>, \<open>p4\<close> and \<open>p5\<close> can be special values.
\<close>

definition posterior_space :: "real \<Rightarrow> real \<Rightarrow> int \<Rightarrow> vec \<Rightarrow> npfloat" where
  "posterior_space mean sigma N curr_param =
     (let cps = snd curr_param;
          p1 = np_power cps (- (of_int N + 2) / 2);
          p2 = of_int (N - 1) * sigma\<^sup>2;
          p3 = of_int N * (mean - fst curr_param)\<^sup>2;
          p4 = np_div (Fin (- 1)) (Fin (2 * cps));
          p5 = np_exp (np_mul p4 (Fin (p2 + p3)))
      in np_mul (np_mul (np_of_bool (snd curr_param > 0)) p1) p5)"

text \<open>
  \<^verbatim>\<open>
  def posterior_space_2(mean,sigma,N,curr_param):
      p1 = numpy.power(curr_param[1],-N+2)
      p2 = (N-1)*numpy.square(sigma)
      p3 = N * numpy.square((mean - curr_param[0]))
      p4 = (2 * numpy.square(curr_param[1]))
      return (curr_param[1] > 0) * p1 * numpy.exp(-1*(p2+p3)/p4)
  \<close>
\<close>

definition posterior_space_2 :: "real \<Rightarrow> real \<Rightarrow> int \<Rightarrow> vec \<Rightarrow> npfloat" where
  "posterior_space_2 mean sigma N curr_param =
     (let p1 = np_power (snd curr_param) (of_int (- N + 2));
          p2 = of_int (N - 1) * sigma\<^sup>2;
          p3 = of_int N * (mean - fst curr_param)\<^sup>2;
          p4 = 2 * (snd curr_param)\<^sup>2
      in np_mul (np_mul (np_of_bool (snd curr_param > 0)) p1)
           (np_exp (np_div (np_mul (Fin (- 1)) (Fin (p2 + p3))) (Fin p4))))"

section \<open>The Metropolis-Hastings loop of the two notebooks\<close>

text \<open>
  Both notebooks run the same cell, with different constants:
  \<^verbatim>\<open>
  markov_chain = numpy.zeros((n_mc,2))
  markov_chain[0] = [9.234,0.567]
  acceptances = 0
  for i in numpy.arange(n_mc-1):
      current_mean = markov_chain[i]
      proposed_mean = current_mean + numpy.random.multivariate_normal(meanp,covp)
      pdf_curr = multivariate_normal.pdf(current_mean,means,Sigma)
      pdf_proposed = multivariate_normal.pdf(proposed_mean,means,Sigma)
      ratio = pdf_proposed / pdf_curr
      rand = numpy.random.rand()
      if ratio > rand:
          markov_chain[i+1] = proposed_mean
          acceptances += 1
      else:
          markov_chain[i+1] = current_mean
  \<close>
  The configuration (\<open>n_mc\<close>, the first row, the target density) is a parameter of the
  model.  The random source is a pair of sequences: \<open>noise i\<close> is the vector drawn in
  iteration \<open>i\<close> (one normal draw per iteration, before the uniform one) and \<open>uniform i\<close>
  is the value of \<open>numpy.random.rand()\<close> in iteration \<open>i\<close>.  The state of the cell is the
  array \<open>markov_chain\<close> and the counter \<open>acceptances\<close>.
\<close>

datatype py_error = ValueError | IndexError | ZeroDivisionError

record mc_state =
  markov_chain :: "vec list"
  acceptances :: int

text \<open>\<open>a[i]\<close> and \<open>a[i] = v\<close> for a non-negative index: IndexError out of range.\<close>

definition getitem :: "vec list \<Rightarrow> nat \<Rightarrow> py_error + vec" where
  "getitem a i = (if i < length a then Inr (a ! i) else Inl IndexError)"

definition setitem :: "vec list \<Rightarrow> nat \<Rightarrow> vec \<Rightarrow> py_error + vec list" where
  "setitem a i v = (if i < length a then Inr (a[i := v]) else Inl IndexError)"

definition vec_add :: "vec \<Rightarrow> vec \<Rightarrow> vec" where
  "vec_add a b = (fst a + fst b, snd a + snd b)"

text \<open>\<open>numpy.zeros((n,2))\<close>: ValueError for a negative dimension.\<close>

definition numpy_zeros :: "int \<Rightarrow> py_error + vec list" where
  "numpy_zeros n = (if n < 0 then Inl ValueError else Inr (replicate (nat n) (0, 0)))"

text \<open>\<open>numpy.arange(n)\<close>: empty for \<open>n \<le> 0\<close>.\<close>

definition numpy_arange :: "int \<Rightarrow> nat list" where
  "numpy_arange n = [0..<nat n]"

text \<open>The three statements before the loop.\<close>

definition mcmc_setup :: "int \<Rightarrow> vec \<Rightarrow> py_error + mc_state" where
  "mcmc_setup n_mc initial =
     (case numpy_zeros n_mc of
        Inl e \<Rightarrow> Inl e
      | Inr z \<Rightarrow>
          (case setitem z 0 initial of
             Inl e \<Rightarrow> Inl e
           | Inr c \<Rightarrow> Inr \<lparr>markov_chain = c, acceptances = 0\<rparr>))"

text \<open>
  One iteration of the loop, given the two draws of this iteration: \<open>eps\<close>, the proposal
  noise, and \<open>u\<close>, the uniform number.
\<close>

definition loop_body ::
  "(vec \<Rightarrow> npfloat) \<Rightarrow> vec \<Rightarrow> real \<Rightarrow> nat \<Rightarrow> mc_state \<Rightarrow> py_error + mc_state" where
  "loop_body pdf eps u i s =
     (case getitem (markov_chain s) i of
        Inl e \<Rightarrow> Inl e
      | Inr current \<Rightarrow>
          (let proposed = vec_add current eps;
               pdf_curr = pdf current;
               pdf_proposed = pdf proposed;
               ratio = np_div pdf_proposed pdf_curr;
               rand = Fin u
           in if np_gt ratio rand then
                (case setitem (markov_chain s) (i + 1) proposed of
                   Inl e \<Rightarrow> Inl e
                 | Inr c \<Rightarrow> Inr (s\<lparr>markov_chain := c, acceptances := acceptances s + 1\<rparr>))
              else
                (case setitem (markov_chain s) (i + 1) current of
                   Inl e \<Rightarrow> Inl e
                 | Inr c \<Rightarrow> Inr (s\<lparr>markov_chain := c\<rparr>))))"

fun mcmc_loop ::
  "(vec \<Rightarrow> npfloat) \<Rightarrow> (nat \<Rightarrow> vec) \<Rightarrow> (nat \<Rightarrow> real) \<Rightarrow> nat list \<Rightarrow> mc_state
     \<Rightarrow> py_error + mc_state" where
  "mcmc_loop pdf noise uniform [] s = Inr s"
| "mcmc_loop pdf noise uniform (i # rest) s =
     (case loop_body pdf (noise i) (uniform i) i s of
        Inl e \<Rightarrow> Inl e
      | Inr s' \<Rightarrow> mcmc_loop pdf noise uniform rest s')"

text \<open>The whole cell: the state when the loop has finished.\<close>

definition mcmc_run ::
  "int \<Rightarrow> vec \<Rightarrow> (vec \<Rightarrow> npfloat) \<Rightarrow> (nat \<Rightarrow> vec) \<Rightarrow> (nat \<Rightarrow> real) \<Rightarrow> py_error + mc_state" where
  "mcmc_run n_mc initial pdf noise uniform =
     (case mcmc_setup n_mc initial of
        Inl e \<Rightarrow> Inl e
      | Inr s \<Rightarrow> mcmc_loop pdf noise uniform (numpy_arange (n_mc - 1)) s)"

text \<open>The state of the cell after the first \<open>k\<close> iterations of the loop.\<close>

definition mcmc_prefix ::
  "int \<Rightarrow> vec \<Rightarrow> (vec \<Rightarrow> npfloat) \<Rightarrow> (nat \<Rightarrow> vec) \<Rightarrow> (nat \<Rightarrow> real) \<Rightarrow> nat
     \<Rightarrow> py_error + mc_state" where
  "mcmc_prefix n_mc initial pdf noise uniform k =
     (case mcmc_setup n_mc initial of
        Inl e \<Rightarrow> Inl e
      | Inr s \<Rightarrow> mcmc_loop pdf noise uniform (take k (numpy_arange (n_mc - 1))) s)"

subsection \<open>The known-variance notebook\<close>

text \<open>
  \<open>n_mc = 1000\<close>, the first row is \<open>[9.234,0.567]\<close>, the density is scipy's
  \<open>multivariate_normal.pdf(\<cdot>, means, Sigma)\<close> (a library function: the parameter
  \<open>pdf\<close>), the noise is a \<open>numpy.random.multivariate_normal\<close> draw.  After the loop the
  cell computes
  \<^verbatim>\<open>acceptance_ratio = acceptances / n_mc\<close>
  which is Python 3's true division of two ints.
\<close>

definition acceptance_ratio :: "int \<Rightarrow> mc_state \<Rightarrow> py_error + real" where
  "acceptance_ratio n_mc s =
     (if n_mc = 0 then Inl ZeroDivisionError
      else Inr (of_int (acceptances s) / of_int n_mc))"

definition mcmc_knownvariance ::
  "int \<Rightarrow> vec \<Rightarrow> (vec \<Rightarrow> npfloat) \<Rightarrow> (nat \<Rightarrow> vec) \<Rightarrow> (nat \<Rightarrow> real)
     \<Rightarrow> py_error + mc_state \<times> real" where
  "mcmc_knownvariance n_mc initial pdf mvn uniform =
     (case mcmc_run n_mc initial pdf mvn uniform of
        Inl e \<Rightarrow> Inl e
      | Inr s \<Rightarrow>
          (case acceptance_ratio n_mc s of
             Inl e \<Rightarrow> Inl e
           | Inr q \<Rightarrow> Inr (s, q)))"

subsection \<open>The unknown-variance notebook\<close>

text \<open>
  \<^verbatim>\<open>
  markov_chain = numpy.zeros((n_mc,2))
  markov_chain[0] = [3.2,8.6]
  acceptances = 0
  for i in numpy.arange(n_mc-1):
      current_val = markov_chain[i,:]
      proposed = current_val + numpy.dot(cholesky,numpy.random.randn(2))
      current_pdf = posterior_space_2(meanx,sigmax,Nx,current_val)
      proposed_pdf = posterior_space_2(meanx,sigmax,Nx,proposed)
      r = proposed_pdf / current_pdf
      rand = numpy.random.rand()
      if r > rand:
          markov_chain[i+1] = proposed
          acceptances += 1
      else:
          markov_chain[i+1] = current_val
  \<close>
  \<open>n_mc = 1000\<close>, the density is \<open>posterior_space_2(meanx,sigmax,Nx,\<cdot>)\<close> with
  \<open>meanx = 5\<close>, \<open>sigmax = 2\<close>, \<open>Nx = 100\<close>, and the noise is the product of \<open>cholesky\<close>
  with a pair of standard normal draws, where \<open>cholesky\<close> is the factor computed by
  \<open>numpy.linalg.cholesky\<close> from the proposal scales (a library function: a parameter
  here).  This notebook computes no acceptance ratio.
\<close>

type_synonym mat = "vec \<times> vec"

definition numpy_dot :: "mat \<Rightarrow> vec \<Rightarrow> vec" where
  "numpy_dot m v =
     (fst (fst m) * fst v + snd (fst m) * snd v,
      fst (snd m) * fst v + snd (snd m) * snd v)"

definition mcmc_unknownvariance ::
  "int \<Rightarrow> vec \<Rightarrow> real \<Rightarrow> real \<Rightarrow> int \<Rightarrow> mat \<Rightarrow> (nat \<Rightarrow> vec) \<Rightarrow> (nat \<Rightarrow> real)
     \<Rightarrow> py_error + mc_state" where
  "mcmc_unknownvariance n_mc initial meanx sigmax Nx cholesky randn uniform =
     mcmc_run n_mc initial (posterior_space_2 meanx sigmax Nx)
       (\<lambda>i. numpy_dot cholesky (randn i)) uniform"

subsection \<open>Notions used to state the properties\<close>

text \<open>The test \<open>ratio > rand\<close> of an iteration, from the two states and the uniform draw.\<close>

definition accepted :: "(vec \<Rightarrow> npfloat) \<Rightarrow> vec \<Rightarrow> vec \<Rightarrow> real \<Rightarrow> bool" where
  "accepted pdf current proposed u = np_gt (np_div (pdf proposed) (pdf current)) (Fin u)"

text \<open>The row an iteration writes, from the row it reads and its two draws.\<close>

definition next_state :: "(vec \<Rightarrow> npfloat) \<Rightarrow> vec \<Rightarrow> vec \<Rightarrow> real \<Rightarrow> vec" where
  "next_state pdf current eps u =
     (if accepted pdf current (vec_add current eps) u then vec_add current eps else current)"

text \<open>A random source that replays the recorded draws \<open>xs\<close>, then yields \<open>d\<close> forever.\<close>

definition draws :: "'a list \<Rightarrow> 'a \<Rightarrow> nat \<Rightarrow> 'a" where
  "draws xs d i = (if i < length xs then xs ! i else d)"

section \<open>The loop, iteration by iteration\<close>

lemma loop_body_in_range:
  assumes "Suc i < length (markov_chain s)"
  shows "loop_body pdf eps u i s =
           Inr (s\<lparr>markov_chain := (markov_chain s)[Suc i := next_state pdf (markov_chain s ! i) eps u],
                  acceptances := acceptances s +
                    (if accepted pdf (markov_chain s ! i) (vec_add (markov_chain s ! i) eps) u
                     then 1 else 0)\<rparr>)"
  using assms
  by (simp add: loop_body_def getitem_def setitem_def accepted_def next_state_def Let_def)

lemma mcmc_loop_snoc:
  "mcmc_loop pdf noise uniform (xs @ [i]) s =
     (case mcmc_loop pdf noise uniform xs s of
        Inl e \<Rightarrow> Inl e
      | Inr s' \<Rightarrow> loop_body pdf (noise i) (uniform i) i s')"
  by (induction xs arbitrary: s) (auto split: sum.splits)

lemma mcmc_prefix_0:
  "1 \<le> n_mc \<Longrightarrow> mcmc_prefix n_mc initial pdf noise uniform 0 =
     Inr \<lparr>markov_chain = (replicate (nat n_mc) (0, 0))[0 := initial], acceptances = 0\<rparr>"
  by (simp add: mcmc_prefix_def mcmc_setup_def numpy_zeros_def setitem_def)

lemma mcmc_prefix_Suc:
  assumes "Suc k \<le> nat (n_mc - 1)"
  shows "mcmc_prefix n_mc initial pdf noise uniform (Suc k) =
           (case mcmc_prefix n_mc initial pdf noise uniform k of
              Inl e \<Rightarrow> Inl e
            | Inr s \<Rightarrow> loop_body pdf (noise k) (uniform k) k s)"
proof -
  have "take (Suc k) (numpy_arange (n_mc - 1)) = take k (numpy_arange (n_mc - 1)) @ [k]"
    using assms by (simp add: numpy_arange_def take_Suc_conv_app_nth)
  then show ?thesis
    by (simp add: mcmc_prefix_def mcmc_loop_snoc split: sum.splits)
qed

lemma mcmc_run_prefix:
  "mcmc_run n_mc initial pdf noise uniform =
   mcmc_prefix n_mc initial pdf noise uniform (nat (n_mc - 1))"
proof -
  have "take (nat (n_mc - 1)) (numpy_arange (n_mc - 1)) = numpy_arange (n_mc - 1)"
    by (simp add: numpy_arange_def)
  then show ?thesis
    by (simp only: mcmc_run_def mcmc_prefix_def)
qed

text \<open>
  The invariant of the loop: after \<open>k\<close> iterations no error was raised, the array still
  has \<open>n_mc\<close> rows, row 0 is the initial state, the counter is between 0 and \<open>k\<close>, and
  each of the rows \<open>1..k\<close> is the transition of the row before it.
\<close>

lemma mcmc_prefix_inv:
  assumes "1 \<le> n_mc" and "k \<le> nat (n_mc - 1)"
  shows "\<exists>s. mcmc_prefix n_mc initial pdf noise uniform k = Inr s
           \<and> length (markov_chain s) = nat n_mc
           \<and> markov_chain s ! 0 = initial
           \<and> 0 \<le> acceptances s \<and> acceptances s \<le> int k
           \<and> (\<forall>j<k. markov_chain s ! Suc j =
                  next_state pdf (markov_chain s ! j) (noise j) (uniform j))"
  using assms(2)
proof (induction k)
  case 0
  show ?case using assms(1) by (simp add: mcmc_prefix_0)
next
  case (Suc k)
  then obtain s where s: "mcmc_prefix n_mc initial pdf noise uniform k = Inr s"
    and len: "length (markov_chain s) = nat n_mc"
    and hd: "markov_chain s ! 0 = initial"
    and acc: "0 \<le> acceptances s" "acceptances s \<le> int k"
    and tr: "\<forall>j<k. markov_chain s ! Suc j =
                  next_state pdf (markov_chain s ! j) (noise j) (uniform j)"
    by auto
  from Suc.prems len have rng: "Suc k < length (markov_chain s)" by simp
  let ?cur = "markov_chain s ! k"
  let ?new = "next_state pdf ?cur (noise k) (uniform k)"
  let ?s' = "s\<lparr>markov_chain := (markov_chain s)[Suc k := ?new],
               acceptances := acceptances s +
                 (if accepted pdf ?cur (vec_add ?cur (noise k)) (uniform k) then 1 else 0)\<rparr>"
  have step: "mcmc_prefix n_mc initial pdf noise uniform (Suc k) = Inr ?s'"
    using Suc.prems s loop_body_in_range [OF rng, of pdf "noise k" "uniform k"]
    by (simp add: mcmc_prefix_Suc)
  have "\<forall>j<Suc k. markov_chain ?s' ! Suc j =
          next_state pdf (markov_chain ?s' ! j) (noise j) (uniform j)"
  proof (intro allI impI)
    fix j assume "j < Suc k"
    then consider "j < k" | "j = k" by linarith
    then show "markov_chain ?s' ! Suc j =
          next_state pdf (markov_chain ?s' ! j) (noise j) (uniform j)"
    proof cases
      case 1
      then show ?thesis using tr rng by simp
    next
      case 2
      then show ?thesis using rng by simp
    qed
  qed
  moreover have "length (markov_chain ?s') = nat n_mc" using len by simp
  moreover have "markov_chain ?s' ! 0 = initial" using hd by simp
  moreover have "0 \<le> acceptances ?s'" "acceptances ?s' \<le> int (Suc k)" using acc by simp_all
  ultimately show ?case using step by blast
qed

lemma mcmc_run_inv:
  assumes "1 \<le> n_mc"
  shows "\<exists>r. mcmc_run n_mc initial pdf noise uniform = Inr r
           \<and> length (markov_chain r) = nat n_mc
           \<and> markov_chain r ! 0 = initial
           \<and> 0 \<le> acceptances r \<and> acceptances r \<le> n_mc - 1
           \<and> (\<forall>j<nat (n_mc - 1). markov_chain r ! Suc j =
                  next_state pdf (markov_chain r ! j) (noise j) (uniform j))"
proof -
  have "int (nat (n_mc - 1)) = n_mc - 1" using assms by simp
  then show ?thesis
    using mcmc_prefix_inv [OF assms order_refl, of initial pdf noise uniform]
    by (simp add: mcmc_run_prefix)
qed

lemma mcmc_prefix_step:
  assumes "1 \<le> n_mc" and "Suc k \<le> nat (n_mc - 1)"
    and "mcmc_prefix n_mc initial pdf noise uniform k = Inr s"
  shows "mcmc_prefix n_mc initial pdf noise uniform (Suc k) =
           Inr (s\<lparr>markov_chain := (markov_chain s)
                      [Suc k := next_state pdf (markov_chain s ! k) (noise k) (uniform k)],
                  acceptances := acceptances s +
                    (if accepted pdf (markov_chain s ! k)
                          (vec_add (markov_chain s ! k) (noise k)) (uniform k)
                     then 1 else 0)\<rparr>)"
proof -
  from assms(2) have "k \<le> nat (n_mc - 1)" by simp
  from mcmc_prefix_inv [OF assms(1) this, of initial pdf noise uniform] assms(3)
  have "length (markov_chain s) = nat n_mc" by auto
  with assms(2) have rng: "Suc k < length (markov_chain s)" by simp
  show ?thesis
    using assms(2,3) loop_body_in_range [OF rng, of pdf "noise k" "uniform k"]
    by (simp add: mcmc_prefix_Suc)
qed

text \<open>Two arrays that start alike and follow the same transitions agree.\<close>

lemma chain_agree:
  assumes "c ! 0 = c' ! 0"
    and "\<forall>j<k. c ! Suc j = next_state pdf (c ! j) (noise j) (uniform j)"
    and "\<forall>j<k. c' ! Suc j = next_state pdf (c' ! j) (noise j) (uniform j)"
  shows "j \<le> k \<Longrightarrow> c ! j = c' ! j"
proof (induction j)
  case 0
  show ?case by (rule assms(1))
next
  case (Suc j)
  then have "j < k" and "c ! j = c' ! j" by simp_all
  then show ?case using assms(2,3) by simp
qed

text \<open>Rows \<open>0..k\<close> are final after \<open>k\<close> iterations: later iterations write higher rows.\<close>

lemma mcmc_prefix_final:
  assumes "1 \<le> n_mc" and "k \<le> nat (n_mc - 1)"
  shows "\<exists>s r. mcmc_prefix n_mc initial pdf noise uniform k = Inr s
            \<and> mcmc_run n_mc initial pdf noise uniform = Inr r
            \<and> (\<forall>j\<le>k. markov_chain s ! j = markov_chain r ! j)"
proof -
  from mcmc_prefix_inv [OF assms, of initial pdf noise uniform]
  obtain s where s: "mcmc_prefix n_mc initial pdf noise uniform k = Inr s"
    and s0: "markov_chain s ! 0 = initial"
    and str: "\<forall>j<k. markov_chain s ! Suc j =
                next_state pdf (markov_chain s ! j) (noise j) (uniform j)"
    by auto
  from mcmc_run_inv [OF assms(1), of initial pdf noise uniform]
  obtain r where r: "mcmc_run n_mc initial pdf noise uniform = Inr r"
    and r0: "markov_chain r ! 0 = initial"
    and rtr: "\<forall>j<nat (n_mc - 1). markov_chain r ! Suc j =
                next_state pdf (markov_chain r ! j) (noise j) (uniform j)"
    by auto
  from rtr assms(2)
  have rtr': "\<forall>j<k. markov_chain r ! Suc j =
                next_state pdf (markov_chain r ! j) (noise j) (uniform j)"
    by simp
  have "\<forall>j\<le>k. markov_chain s ! j = markov_chain r ! j"
    using chain_agree [OF _ str rtr'] s0 r0 by simp
  with s r show ?thesis by blast
qed

section \<open>A small run, evaluated\<close>

text \<open>
  Three rows, the posterior \<open>posterior_space_2(0,0,2,\<cdot>)\<close> (which is 1 at \<open>(0, y)\<close> for
  \<open>y > 0\<close> and 0 for \<open>y < 0\<close>), started at \<open>(0, 1)\<close>.  Iteration 0 proposes \<open>(0, 2)\<close>:
  the ratio is 1, above the draw 1/2, so the proposal is accepted.  Iteration 1 proposes
  \<open>(0, -3)\<close>: the ratio is 0, not above the draw 1/4, so row 1 is repeated.
\<close>

lemmas np_defs =
  np_power_def np_mul_def np_div_def np_of_bool_def np_inf_def np_zero_def np_gt_def np_ge_def

lemmas cell_defs =
  mcmc_run_def mcmc_prefix_def mcmc_setup_def numpy_zeros_def numpy_arange_def
  setitem_def getitem_def loop_body_def draws_def vec_add_def Let_def

lemma small_pdf_values:
  "posterior_space_2 0 0 2 (0, 1) = Fin 1"
  "posterior_space_2 0 0 2 (0, 2) = Fin 1"
  "posterior_space_2 0 0 2 (0, - 3) = Fin 0"
  by (simp_all add: posterior_space_2_def np_defs Let_def)

lemma small_run:
  "mcmc_run 3 (0, 1) (posterior_space_2 0 0 2)
     (draws [(0, 1), (0, - 5)] (0, 0)) (draws [1 / 2, 1 / 4] 0)
   = Inr \<lparr>markov_chain = [(0, 1), (0, 2), (0, 2)], acceptances = 1\<rparr>"
  by (simp add: numeral_2_eq_2 numeral_3_eq_3 upt_rec cell_defs small_pdf_values np_defs)

lemma small_prefix_0:
  "mcmc_prefix 3 (0, 1) (posterior_space_2 0 0 2)
     (draws [(0, 1), (0, - 5)] (0, 0)) (draws [1 / 2, 1 / 4] 0) 0
   = Inr \<lparr>markov_chain = [(0, 1), (0, 0), (0, 0)], acceptances = 0\<rparr>"
  by (simp add: numeral_2_eq_2 numeral_3_eq_3 upt_rec cell_defs)

lemma small_prefix_1:
  "mcmc_prefix 3 (0, 1) (posterior_space_2 0 0 2)
     (draws [(0, 1), (0, - 5)] (0, 0)) (draws [1 / 2, 1 / 4] 0) (Suc 0)
   = Inr \<lparr>markov_chain = [(0, 1), (0, 2), (0, 0)], acceptances = 1\<rparr>"
  by (simp add: numeral_2_eq_2 numeral_3_eq_3 upt_rec cell_defs small_pdf_values np_defs)

lemma small_knownvariance:
  "mcmc_knownvariance 3 (0, 1) (posterior_space_2 0 0 2)
     (draws [(0, 1), (0, - 5)] (0, 0)) (draws [1 / 2, 1 / 4] 0)
   = Inr (\<lparr>markov_chain = [(0, 1), (0, 2), (0, 2)], acceptances = 1\<rparr>, 1 / 3)"
  by (simp add: mcmc_knownvariance_def acceptance_ratio_def small_run)

text \<open>
  The unknown-variance posterior with the notebook's constants, below and above zero
  variance at mean 3.2.
\<close>

lemma zero_start_values:
  "posterior_space_2 5 2 100 (16 / 5, - 1) = Fin 0"
  "posterior_space_2 5 2 100 (16 / 5, 1) = Fin (exp (- 360))"
  by (simp_all add: posterior_space_2_def np_defs Let_def power2_eq_square)

section \<open>Facts about one acceptance test\<close>

text \<open>
  A proposal whose density is zero is never accepted from a state whose density is not
  zero: the ratio is a zero or nan, and the uniform draw is not negative.
\<close>

lemma zero_proposal_rejected:
  assumes "np_is_zero p" and "\<not> np_is_zero c" and "0 \<le> u"
  shows "\<not> np_gt (np_div p c) (Fin u)"
  using assms by (cases p; cases c) (simp_all add: np_defs)

lemma next_state_nonzero:
  assumes "\<not> np_is_zero (pdf current)" and "0 \<le> u"
  shows "\<not> np_is_zero (pdf (next_state pdf current eps u))"
  using assms zero_proposal_rejected [of "pdf (vec_add current eps)" "pdf current" u]
  by (auto simp: next_state_def accepted_def)

lemma chain_nonzero:
  assumes "\<not> np_is_zero (pdf (c ! 0))"
    and "\<forall>j<k. c ! Suc j = next_state pdf (c ! j) (noise j) (uniform j)"
    and "\<forall>j<k. 0 \<le> uniform j"
  shows "j \<le> k \<Longrightarrow> \<not> np_is_zero (pdf (c ! j))"
proof (induction j)
  case 0
  show ?case by (rule assms(1))
next
  case (Suc j)
  then have "j < k" and "\<not> np_is_zero (pdf (c ! j))" by simp_all
  then show ?case using assms(2,3) by (simp add: next_state_nonzero)
qed

text \<open>
  A proposal whose density is at least the (finite, positive) density of the current
  state has a ratio of at least 1, which is above any draw below 1.
\<close>

lemma uphill_ratio_accepted:
  assumes "c = Fin a" and "0 < a" and "np_ge p c" and "u < 1"
  shows "np_gt (np_div p c) (Fin u)"
proof (cases p)
  case (Fin b)
  with assms have "a \<le> b" by (simp add: np_ge_def)
  with assms(2) have "1 \<le> b / a" by simp
  with assms(4) have "u < b / a" by linarith
  with Fin assms(1,2) \<open>a \<le> b\<close> show ?thesis by (simp add: np_defs)
qed (use assms in \<open>simp_all add: np_defs\<close>)

section \<open>Properties of the sampler\<close>

text \<open>
  C1 (one step).  In iteration \<open>i\<close> the candidate is row \<open>i\<close> plus the noise of the
  iteration and the ratio is the density of the candidate divided by the density of row
  \<open>i\<close>.  If the ratio is above the uniform draw, row \<open>i+1\<close> of the finished chain is the
  candidate and the iteration adds one to \<open>acceptances\<close>; otherwise row \<open>i+1\<close> is row \<open>i\<close>
  again and the counter is unchanged.
\<close>

theorem step_semantics:
  assumes "int i + 1 < n_mc"
  shows "\<exists>s s' r.
           mcmc_prefix n_mc initial pdf noise uniform i = Inr s
         \<and> mcmc_prefix n_mc initial pdf noise uniform (Suc i) = Inr s'
         \<and> mcmc_run n_mc initial pdf noise uniform = Inr r
         \<and> (if np_gt (np_div (pdf (vec_add (markov_chain r ! i) (noise i)))
                              (pdf (markov_chain r ! i)))
                      (Fin (uniform i))
            then markov_chain r ! (i + 1) = vec_add (markov_chain r ! i) (noise i)
               \<and> acceptances s' = acceptances s + 1
            else markov_chain r ! (i + 1) = markov_chain r ! i
               \<and> acceptances s' = acceptances s)"
proof -
  from assms have n: "1 \<le> n_mc" and k: "Suc i \<le> nat (n_mc - 1)" by simp_all
  then have i: "i \<le> nat (n_mc - 1)" by simp
  from mcmc_prefix_final [OF n i, of initial pdf noise uniform]
  obtain s r where s: "mcmc_prefix n_mc initial pdf noise uniform i = Inr s"
    and r: "mcmc_run n_mc initial pdf noise uniform = Inr r"
    and sr: "markov_chain s ! i = markov_chain r ! i"
    by auto
  from mcmc_run_inv [OF n, of initial pdf noise uniform] r k
  have tr: "markov_chain r ! Suc i =
              next_state pdf (markov_chain r ! i) (noise i) (uniform i)"
    by auto
  note st = mcmc_prefix_step [OF n k s]
  show ?thesis
    using s r st sr tr by (simp add: next_state_def accepted_def)
qed

theorem step_semantics_witness:
  "int 0 + 1 < (3::int)
   \<and> mcmc_prefix 3 (0, 1) (posterior_space_2 0 0 2)
        (draws [(0, 1), (0, - 5)] (0, 0)) (draws [1 / 2, 1 / 4] 0) 0
      = Inr \<lparr>markov_chain = [(0, 1), (0, 0), (0, 0)], acceptances = 0\<rparr>
   \<and> mcmc_prefix 3 (0, 1) (posterior_space_2 0 0 2)
        (draws [(0, 1), (0, - 5)] (0, 0)) (draws [1 / 2, 1 / 4] 0) (Suc 0)
      = Inr \<lparr>markov_chain = [(0, 1), (0, 2), (0, 0)], acceptances = 1\<rparr>
   \<and> mcmc_run 3 (0, 1) (posterior_space_2 0 0 2)
        (draws [(0, 1), (0, - 5)] (0, 0)) (draws [1 / 2, 1 / 4] 0)
      = Inr \<lparr>markov_chain = [(0, 1), (0, 2), (0, 2)], acceptances = 1\<rparr>
   \<and> np_gt (np_div (posterior_space_2 0 0 2 (vec_add (0, 1) (0, 1)))
                    (posterior_space_2 0 0 2 (0, 1))) (Fin (1 / 2))
   \<and> [(0, 1), (0, 2), (0, 2)] ! (0 + 1) = vec_add (0 :: real, 1 :: real) (0, 1)
   \<and> (1 :: int) = 0 + 1"
proof -
  have h: "int 0 + 1 < (3::int)" by simp
  show ?thesis
    using h step_semantics [OF h, of "(0, 1)" "posterior_space_2 0 0 2"
      "draws [(0, 1), (0, - 5)] (0, 0)" "draws [1 / 2, 1 / 4] 0"]
    by (simp add: small_run small_prefix_0 small_prefix_1 small_pdf_values vec_add_def np_defs)
qed

text \<open>
  C2 (zero denominators).  The division \<open>pdf_proposed / pdf_curr\<close> has no
  guard.  What keeps its denominator from being zero is the start: if the density of the
  initial state is not zero and the uniform draws are not negative, then the density of
  row \<open>i\<close> is not zero when iteration \<open>i\<close> divides by it, and the density of every row of
  the finished chain is not zero.
\<close>

theorem denominator_never_zero:
  assumes "1 \<le> n_mc" and "\<not> np_is_zero (pdf initial)"
    and "\<forall>i<nat (n_mc - 1). 0 \<le> uniform i"
  shows "(\<forall>i<nat (n_mc - 1). \<exists>s. mcmc_prefix n_mc initial pdf noise uniform i = Inr s
             \<and> \<not> np_is_zero (pdf (markov_chain s ! i)))
       \<and> (\<exists>r. mcmc_run n_mc initial pdf noise uniform = Inr r
             \<and> (\<forall>i<nat n_mc. \<not> np_is_zero (pdf (markov_chain r ! i))))"
proof -
  from mcmc_run_inv [OF assms(1), of initial pdf noise uniform]
  obtain r where r: "mcmc_run n_mc initial pdf noise uniform = Inr r"
    and r0: "markov_chain r ! 0 = initial"
    and rtr: "\<forall>j<nat (n_mc - 1). markov_chain r ! Suc j =
                next_state pdf (markov_chain r ! j) (noise j) (uniform j)"
    by auto
  have nz: "\<not> np_is_zero (pdf (markov_chain r ! j))" if "j \<le> nat (n_mc - 1)" for j
    using chain_nonzero [OF _ rtr assms(3) that] r0 assms(2) by simp
  have a: "\<forall>i<nat n_mc. \<not> np_is_zero (pdf (markov_chain r ! i))"
  proof (intro allI impI)
    fix i assume "i < nat n_mc"
    then have "i \<le> nat (n_mc - 1)" by linarith
    then show "\<not> np_is_zero (pdf (markov_chain r ! i))" by (rule nz)
  qed
  have b: "\<forall>i<nat (n_mc - 1). \<exists>s. mcmc_prefix n_mc initial pdf noise uniform i = Inr s
             \<and> \<not> np_is_zero (pdf (markov_chain s ! i))"
  proof (intro allI impI)
    fix i assume "i < nat (n_mc - 1)"
    then have i: "i \<le> nat (n_mc - 1)" by simp
    from mcmc_prefix_final [OF assms(1) i, of initial pdf noise uniform] r
    obtain s where "mcmc_prefix n_mc initial pdf noise uniform i = Inr s"
      and "markov_chain s ! i = markov_chain r ! i"
      by auto
    then show "\<exists>s. mcmc_prefix n_mc initial pdf noise uniform i = Inr s
             \<and> \<not> np_is_zero (pdf (markov_chain s ! i))"
      using nz [OF i] by simp
  qed
  from a b r show ?thesis by blast
qed

theorem denominator_never_zero_witness:
  "(1::int) \<le> 3
   \<and> \<not> np_is_zero (posterior_space_2 0 0 2 (0, 1))
   \<and> 0 \<le> draws [1 / 2, 1 / 4] (0 :: real) 0 \<and> 0 \<le> draws [1 / 2, 1 / 4] (0 :: real) 1
   \<and> mcmc_prefix 3 (0, 1) (posterior_space_2 0 0 2)
        (draws [(0, 1), (0, - 5)] (0, 0)) (draws [1 / 2, 1 / 4] 0) (Suc 0)
      = Inr \<lparr>markov_chain = [(0, 1), (0, 2), (0, 0)], acceptances = 1\<rparr>
   \<and> \<not> np_is_zero (posterior_space_2 0 0 2 ([(0, 1), (0, 2), (0, 0)] ! Suc 0))
   \<and> mcmc_run 3 (0, 1) (posterior_space_2 0 0 2)
        (draws [(0, 1), (0, - 5)] (0, 0)) (draws [1 / 2, 1 / 4] 0)
      = Inr \<lparr>markov_chain = [(0, 1), (0, 2), (0, 2)], acceptances = 1\<rparr>
   \<and> \<not> np_is_zero (posterior_space_2 0 0 2 ([(0, 1), (0, 2), (0, 2)] ! 2))"
proof -
  have h1: "(1::int) \<le> 3" by simp
  have h2: "\<not> np_is_zero (posterior_space_2 0 0 2 (0, 1))"
    by (simp add: small_pdf_values)
  have h3: "\<forall>i<nat (3 - 1). 0 \<le> draws [1 / 2, 1 / 4] (0 :: real) i"
    by (simp add: draws_def nth_Cons')
  show ?thesis
    using h1 h2 denominator_never_zero [where pdf = "posterior_space_2 0 0 2" and initial = "(0, 1)"
        and noise = "draws [(0, 1), (0, - 5)] (0, 0)", OF h1 h2 h3]
    by (simp add: small_run small_prefix_1 small_pdf_values draws_def)
qed

text \<open>
  C2, when the start has zero density.  Start the unknown-variance cell at \<open>[3.2, -1]\<close>, where
  \<open>posterior_space_2\<close> is zero, with a proposal scale of 1 for the second component and a
  normal draw of 2 for it.  Iteration 0 divides the density of the candidate \<open>[3.2, 1]\<close> by
  zero: the ratio is \<open>inf\<close>, which is above the draw, and the candidate is accepted.
\<close>

theorem zero_density_division_counterexample:
  "posterior_space_2 5 2 100 (16 / 5, - 1) = Fin 0
   \<and> np_div (posterior_space_2 5 2 100 (vec_add (16 / 5, - 1) (numpy_dot ((6 / 10, 0), (0, 1)) (0, 2))))
             (posterior_space_2 5 2 100 (16 / 5, - 1)) = PInf
   \<and> mcmc_unknownvariance 2 (16 / 5, - 1) 5 2 100 ((6 / 10, 0), (0, 1))
        (draws [(0, 2)] (0, 0)) (draws [1 / 2] 0)
      = Inr \<lparr>markov_chain = [(16 / 5, - 1), (16 / 5, 1)], acceptances = 1\<rparr>"
  by (simp add: mcmc_unknownvariance_def numpy_dot_def numeral_2_eq_2 upt_rec cell_defs
        zero_start_values np_defs)



text \<open>
  C6 (acceptance bound).  For \<open>n_mc \<ge> 1\<close>, after any number \<open>k\<close> of iterations the
  counter is between 0 and \<open>k\<close>, hence at most \<open>n_mc - 1\<close>; so it is at the end.
\<close>

theorem acceptance_bound:
  assumes "1 \<le> n_mc"
  shows "(\<forall>k\<le>nat (n_mc - 1). \<exists>s. mcmc_prefix n_mc initial pdf noise uniform k = Inr s
             \<and> 0 \<le> acceptances s \<and> acceptances s \<le> int k \<and> acceptances s \<le> n_mc - 1)
       \<and> (\<exists>r. mcmc_run n_mc initial pdf noise uniform = Inr r
             \<and> 0 \<le> acceptances r \<and> acceptances r \<le> n_mc - 1)"
proof (intro conjI allI impI)
  fix k assume k: "k \<le> nat (n_mc - 1)"
  with assms have "int k \<le> n_mc - 1" by linarith
  then show "\<exists>s. mcmc_prefix n_mc initial pdf noise uniform k = Inr s
             \<and> 0 \<le> acceptances s \<and> acceptances s \<le> int k \<and> acceptances s \<le> n_mc - 1"
    using mcmc_prefix_inv [OF assms k, of initial pdf noise uniform] by auto
next
  show "\<exists>r. mcmc_run n_mc initial pdf noise uniform = Inr r
             \<and> 0 \<le> acceptances r \<and> acceptances r \<le> n_mc - 1"
    using mcmc_run_inv [OF assms, of initial pdf noise uniform] by auto
qed

theorem acceptance_bound_witness:
  "(1::int) \<le> 3 \<and> Suc 0 \<le> nat (3 - 1)
   \<and> mcmc_prefix 3 (0, 1) (posterior_space_2 0 0 2)
        (draws [(0, 1), (0, - 5)] (0, 0)) (draws [1 / 2, 1 / 4] 0) (Suc 0)
      = Inr \<lparr>markov_chain = [(0, 1), (0, 2), (0, 0)], acceptances = 1\<rparr>
   \<and> mcmc_run 3 (0, 1) (posterior_space_2 0 0 2)
        (draws [(0, 1), (0, - 5)] (0, 0)) (draws [1 / 2, 1 / 4] 0)
      = Inr \<lparr>markov_chain = [(0, 1), (0, 2), (0, 2)], acceptances = 1\<rparr>
   \<and> (0::int) \<le> 1 \<and> (1::int) \<le> int (Suc 0) \<and> (1::int) \<le> 3 - 1"
proof -
  have h: "(1::int) \<le> 3" by simp
  show ?thesis
    using h acceptance_bound [OF h, of "(0, 1)" "posterior_space_2 0 0 2"
      "draws [(0, 1), (0, - 5)] (0, 0)" "draws [1 / 2, 1 / 4] 0"]
    by (simp add: small_run small_prefix_1)
qed

text \<open>
  C7 (acceptance ratio).  The known-variance cell reports \<open>acceptances / n_mc\<close>: the
  counter divided by the number of rows of the chain, not by the number \<open>n_mc - 1\<close> of
  iterations the loop ran (the two quotients differ as soon as a proposal was accepted).
\<close>

theorem acceptance_ratio_divisor:
  assumes "1 \<le> n_mc"
  shows "\<exists>s q. mcmc_knownvariance n_mc initial pdf mvn uniform = Inr (s, q)
           \<and> mcmc_run n_mc initial pdf mvn uniform = Inr s
           \<and> q = of_int (acceptances s) / of_int n_mc
           \<and> q = of_int (acceptances s) / real (length (markov_chain s))
           \<and> (0 < acceptances s \<longrightarrow> q \<noteq> of_int (acceptances s) / real (length (numpy_arange (n_mc - 1))))"
proof -
  from mcmc_run_inv [OF assms, of initial pdf mvn uniform]
  obtain s where s: "mcmc_run n_mc initial pdf mvn uniform = Inr s"
    and len: "length (markov_chain s) = nat n_mc"
    and acc: "0 \<le> acceptances s" "acceptances s \<le> n_mc - 1"
    by auto
  let ?q = "real_of_int (acceptances s) / real_of_int n_mc"
  have k: "mcmc_knownvariance n_mc initial pdf mvn uniform = Inr (s, ?q)"
    using s assms by (simp add: mcmc_knownvariance_def acceptance_ratio_def)
  have l: "real (length (markov_chain s)) = real_of_int n_mc"
    using len assms by simp
  have d: "?q \<noteq> of_int (acceptances s) / real (length (numpy_arange (n_mc - 1)))"
    if pos: "0 < acceptances s"
  proof -
    from pos acc have n2: "2 \<le> n_mc" by simp
    then have m: "real (length (numpy_arange (n_mc - 1))) = real_of_int n_mc - 1"
      by (simp add: numpy_arange_def)
    have "real_of_int (acceptances s) / real_of_int n_mc
            < real_of_int (acceptances s) / (real_of_int n_mc - 1)"
      using pos n2 by (simp add: frac_less2)
    then show ?thesis unfolding m by (rule less_imp_neq)
  qed
  show ?thesis using s k l d by auto
qed

theorem acceptance_ratio_divisor_witness:
  "(1::int) \<le> 3
   \<and> mcmc_knownvariance 3 (0, 1) (posterior_space_2 0 0 2)
       (draws [(0, 1), (0, - 5)] (0, 0)) (draws [1 / 2, 1 / 4] 0)
     = Inr (\<lparr>markov_chain = [(0, 1), (0, 2), (0, 2)], acceptances = 1\<rparr>, 1 / 3)
   \<and> (1 / 3 :: real) = of_int 1 / of_int 3
   \<and> (0 :: int) < 1
   \<and> (1 / 3 :: real) \<noteq> of_int 1 / real (length (numpy_arange (3 - 1)))"
proof -
  have h: "(1::int) \<le> 3" by simp
  show ?thesis
    using h acceptance_ratio_divisor [OF h, of "(0, 1)" "posterior_space_2 0 0 2"
      "draws [(0, 1), (0, - 5)] (0, 0)" "draws [1 / 2, 1 / 4] 0"]
    by (simp add: small_knownvariance small_run numpy_arange_def)
qed

text \<open>
  C8 (initial state).  Row 0 is written before the loop, by a statement that does not
  mention the density, and no iteration writes it: for every density and all draws, row 0
  of the finished chain is the initial state.
\<close>

theorem initial_state_verbatim:
  assumes "1 \<le> n_mc"
  shows "(\<exists>s0. mcmc_setup n_mc initial = Inr s0 \<and> markov_chain s0 ! 0 = initial
              \<and> acceptances s0 = 0)
       \<and> (\<exists>r. mcmc_run n_mc initial pdf noise uniform = Inr r \<and> markov_chain r ! 0 = initial)"
proof
  show "\<exists>s0. mcmc_setup n_mc initial = Inr s0 \<and> markov_chain s0 ! 0 = initial
              \<and> acceptances s0 = 0"
    using assms by (simp add: mcmc_setup_def numpy_zeros_def setitem_def)
  show "\<exists>r. mcmc_run n_mc initial pdf noise uniform = Inr r \<and> markov_chain r ! 0 = initial"
    using mcmc_run_inv [OF assms, of initial pdf noise uniform] by auto
qed

theorem initial_state_verbatim_witness:
  "(1::int) \<le> 3
   \<and> mcmc_setup 3 (0, 1) = Inr \<lparr>markov_chain = [(0, 1), (0, 0), (0, 0)], acceptances = 0\<rparr>
   \<and> mcmc_run 3 (0, 1) (posterior_space_2 0 0 2)
        (draws [(0, 1), (0, - 5)] (0, 0)) (draws [1 / 2, 1 / 4] 0)
      = Inr \<lparr>markov_chain = [(0, 1), (0, 2), (0, 2)], acceptances = 1\<rparr>
   \<and> [(0, 1), (0, 2), (0, 2)] ! 0 = (0 :: real, 1 :: real)"
  using initial_state_verbatim [of 3 "(0, 1)" "posterior_space_2 0 0 2"
      "draws [(0, 1), (0, - 5)] (0, 0)" "draws [1 / 2, 1 / 4] 0"]
  by (simp add: small_run mcmc_setup_def numpy_zeros_def setitem_def numeral_3_eq_3)

text \<open>
  C10 (uphill moves).  In an iteration whose uniform draw is below 1, if the density of
  row \<open>i\<close> is a positive number and the density of the candidate is at least as large,
  the candidate is accepted: it becomes row \<open>i+1\<close> and the counter goes up by one.
\<close>

theorem uphill_always_accepted:
  assumes "int i + 1 < n_mc" and "uniform i < 1"
  shows "\<exists>s s' r.
           mcmc_prefix n_mc initial pdf noise uniform i = Inr s
         \<and> mcmc_prefix n_mc initial pdf noise uniform (Suc i) = Inr s'
         \<and> mcmc_run n_mc initial pdf noise uniform = Inr r
         \<and> ((\<exists>a. pdf (markov_chain r ! i) = Fin a \<and> 0 < a)
              \<and> np_ge (pdf (vec_add (markov_chain r ! i) (noise i))) (pdf (markov_chain r ! i))
            \<longrightarrow> markov_chain r ! (i + 1) = vec_add (markov_chain r ! i) (noise i)
              \<and> acceptances s' = acceptances s + 1)"
proof -
  from assms(1) have n: "1 \<le> n_mc" and k: "Suc i \<le> nat (n_mc - 1)" by simp_all
  then have i: "i \<le> nat (n_mc - 1)" by simp
  from mcmc_prefix_final [OF n i, of initial pdf noise uniform]
  obtain s r where s: "mcmc_prefix n_mc initial pdf noise uniform i = Inr s"
    and r: "mcmc_run n_mc initial pdf noise uniform = Inr r"
    and sr: "markov_chain s ! i = markov_chain r ! i"
    by auto
  from mcmc_run_inv [OF n, of initial pdf noise uniform] r k
  have tr: "markov_chain r ! Suc i =
              next_state pdf (markov_chain r ! i) (noise i) (uniform i)"
    by auto
  note st = mcmc_prefix_step [OF n k s]
  let ?cur = "markov_chain r ! i"
  let ?cand = "vec_add ?cur (noise i)"
  have acc: "accepted pdf ?cur ?cand (uniform i)"
    if "\<exists>a. pdf ?cur = Fin a \<and> 0 < a" and "np_ge (pdf ?cand) (pdf ?cur)"
    using that assms(2) uphill_ratio_accepted [of "pdf ?cur" _ "pdf ?cand" "uniform i"]
    by (auto simp: accepted_def)
  show ?thesis
    using s r st sr tr acc by (auto simp: next_state_def)
qed

theorem uphill_always_accepted_witness:
  "int 0 + 1 < (3::int)
   \<and> draws [1 / 2, 1 / 4] (0 :: real) 0 < 1
   \<and> mcmc_prefix 3 (0, 1) (posterior_space_2 0 0 2)
        (draws [(0, 1), (0, - 5)] (0, 0)) (draws [1 / 2, 1 / 4] 0) 0
      = Inr \<lparr>markov_chain = [(0, 1), (0, 0), (0, 0)], acceptances = 0\<rparr>
   \<and> mcmc_prefix 3 (0, 1) (posterior_space_2 0 0 2)
        (draws [(0, 1), (0, - 5)] (0, 0)) (draws [1 / 2, 1 / 4] 0) (Suc 0)
      = Inr \<lparr>markov_chain = [(0, 1), (0, 2), (0, 0)], acceptances = 1\<rparr>
   \<and> mcmc_run 3 (0, 1) (posterior_space_2 0 0 2)
        (draws [(0, 1), (0, - 5)] (0, 0)) (draws [1 / 2, 1 / 4] 0)
      = Inr \<lparr>markov_chain = [(0, 1), (0, 2), (0, 2)], acceptances = 1\<rparr>
   \<and> posterior_space_2 0 0 2 ([(0, 1), (0, 2), (0, 2)] ! 0) = Fin 1 \<and> (0 :: real) < 1
   \<and> np_ge (posterior_space_2 0 0 2
               (vec_add ([(0, 1), (0, 2), (0, 2)] ! 0) (draws [(0, 1), (0, - 5)] (0, 0) 0)))
            (posterior_space_2 0 0 2 ([(0, 1), (0, 2), (0, 2)] ! 0))
   \<and> [(0, 1), (0, 2), (0, 2)] ! (0 + 1)
       = vec_add ([(0 :: real, 1 :: real), (0, 2), (0, 2)] ! 0) (draws [(0, 1), (0, - 5)] (0, 0) 0)
   \<and> (1 :: int) = 0 + 1"
proof -
  have h1: "int 0 + 1 < (3::int)" by simp
  have h2: "draws [1 / 2, 1 / 4] (0 :: real) 0 < 1" by (simp add: draws_def)
  show ?thesis
    using h1 h2 uphill_always_accepted [where uniform = "draws [1 / 2, 1 / 4] 0" and i = 0
        and initial = "(0, 1)" and pdf = "posterior_space_2 0 0 2"
        and noise = "draws [(0, 1), (0, - 5)] (0, 0)", OF h1 h2]
    by (simp add: small_run small_prefix_0 small_prefix_1 small_pdf_values vec_add_def
          draws_def np_ge_def)
qed

section \<open>The two posterior functions\<close>

text \<open>
  At zero variance, for every sample size above 2: the power term is \<open>inf\<close>, the factor
  \<open>(curr_param[1] > 0)\<close> is 0.0, and their product is nan.
\<close>

lemma posterior_space_2_zero_variance:
  assumes "2 < N"
  shows "posterior_space_2 mean sigma N (mu, 0) = NaN"
  using assms by (simp add: posterior_space_2_def np_defs Let_def)

lemma posterior_space_zero_variance:
  assumes "2 < N"
  shows "posterior_space mean sigma N (mu, 0) = NaN"
  using assms by (simp add: posterior_space_def np_defs Let_def)

text \<open>
  C3 (density outside the support).  The factor \<open>(curr_param[1] > 0)\<close> is meant to make
  the density zero outside the support, but at \<open>curr_param[1] = 0\<close> the power term is
  \<open>inf\<close> and \<open>False * inf\<close> is nan: both functions return nan there, not zero.
\<close>

theorem posterior_nan_at_zero_variance:
  "np_power 0 (of_int (- 100 + 2)) = PInf
   \<and> np_mul (np_of_bool ((0 :: real) > 0)) PInf = NaN
   \<and> posterior_space_2 5 2 100 (16 / 5, 0) = NaN
   \<and> posterior_space 5 2 100 (16 / 5, 0) = NaN"
  by (simp add: posterior_space_2_def posterior_space_def np_defs Let_def)

text \<open>The value of the two functions at the point \<open>(5, 2)\<close>, with the notebook's constants.\<close>

lemma two_pow_lt_exp: "(2::real) ^ 47 < exp (99 / 2)"
proof -
  have "(2::real) \<le> exp 1"
    using exp_ge_add_one_self [of "1::real"] by simp
  then have "(2::real) ^ 47 \<le> exp 1 ^ 47"
    by (rule power_mono) simp
  also have "exp (1::real) ^ 47 = exp 47"
    using exp_of_nat_mult [of 47 "1::real"] by simp
  also have "exp (47::real) < exp (99 / 2)"
    by simp
  finally show ?thesis .
qed

lemma posterior_values_lt:
  "(2::real) powr (- 51) * exp (- 99) < 2 powr (- 98) * exp (- 99 / 2)"
proof -
  have p: "(2::real) powr (- 51) = 2 powr (- 98) * 2 ^ 47"
  proof -
    have "(2::real) powr (- 51) = 2 powr (- 98 + 47)" by simp
    also have "\<dots> = 2 powr (- 98) * 2 powr 47" by (rule powr_add)
    also have "(2::real) powr 47 = 2 ^ 47" by simp
    finally show ?thesis .
  qed
  have e: "exp (- 99 :: real) = exp (- 99 / 2) * exp (- 99 / 2)"
    by (simp flip: exp_add)
  have "(2::real) ^ 47 * exp (- 99 / 2) < exp (99 / 2) * exp (- 99 / 2)"
    using two_pow_lt_exp by (rule mult_strict_right_mono) simp
  also have "exp (99 / 2 :: real) * exp (- 99 / 2) = 1"
    by (simp flip: exp_add)
  finally have k: "(2::real) ^ 47 * exp (- 99 / 2) < 1" .
  have pos: "0 < (2::real) powr (- 98) * exp (- 99 / 2)"
    by simp
  have "(2::real) powr (- 51) * exp (- 99) =
        (2 powr (- 98) * exp (- 99 / 2)) * (2 ^ 47 * exp (- 99 / 2))"
    by (simp only: p e mult_ac)
  also have "\<dots> < (2 powr (- 98) * exp (- 99 / 2)) * 1"
    using k pos by (rule mult_strict_left_mono)
  finally show ?thesis by simp
qed

lemma posterior_space_at_5_2:
  "posterior_space 5 2 100 (5, 2) = Fin (2 powr (- 51) * exp (- 99))"
  by (simp add: posterior_space_def np_defs Let_def)

lemma posterior_space_2_at_5_2:
  "posterior_space_2 5 2 100 (5, 2) = Fin (2 powr (- 98) * exp (- 99 / 2))"
  by (simp add: posterior_space_2_def np_defs Let_def)

text \<open>
  C4 (the two formulations).  The notebook presents \<open>posterior_space_2\<close> as a more stable
  form of \<open>posterior_space\<close>, but the two are different functions: the first raises
  \<open>curr_param[1]\<close> to \<open>-(N+2)/2\<close> and divides by \<open>2 * curr_param[1]\<close>, the second raises it
  to \<open>-N+2\<close> and divides by \<open>2 * curr_param[1]\<^sup>2\<close>.  With the notebook's constants they
  differ at \<open>(5, 2)\<close>, where both are defined and positive.
\<close>

theorem posteriors_differ:
  "posterior_space 5 2 100 (5, 2) \<noteq> posterior_space_2 5 2 100 (5, 2)"
  using posterior_values_lt
  by (simp add: posterior_space_at_5_2 posterior_space_2_at_5_2)

end
